theory Spec2Isabelle
  imports Complex_Main "HOL-Library.Sublist"
begin

section \<open>Values, tables and the environment of market\_state.py\<close>

text \<open>
  Python values that travel through the module: the cells of a table, the entries of
  the \<open>params\<close> dict and the report that \<open>get_market_state\<close> returns. A dict is an
  association list in insertion order. A float that is not NaN is a real number (the
  module only compares floats and counts them, and comparisons of floats are exact);
  NaN has a constructor of its own.
\<close>

datatype pyval =
    VNone
  | VBool bool
  | VInt int
  | VFloat real
  | VNaN
  | VStr string
  | VList "pyval list"
  | VDict "(string \<times> pyval) list"

text \<open>
  An exception of the kind that \<open>except Exception\<close> catches: the name of its class
  and its text (\<open>str(e)\<close>).
\<close>

datatype exn = Exn string string

text \<open>
  A pandas DataFrame: its column labels in order and its rows; a row gives the cell
  under each label. A label is read only after it has been found among \<open>columns\<close>.
  Labels are strings and pairwise distinct. Strings are UTF-8 byte sequences.
\<close>

record dataframe =
  columns :: "string list"
  rows :: "(string \<Rightarrow> pyval) list"

text \<open>What a call of the data provider returns: a DataFrame or some other object.\<close>

datatype fetched = Frame dataframe | Obj pyval

text \<open>
  What the module takes from outside: the provider (akshare), the clock, and the
  library routines whose text is not part of the repository. The provider acts on a
  world \<open>'w\<close>; \<open>ak_call name kwargs\<close> is \<open>getattr(ak, name)(**kwargs)\<close>, an
  AttributeError included.
\<close>

record 'w env =
  ak_call :: "string \<Rightarrow> (string \<times> string) list \<Rightarrow> 'w \<Rightarrow> (exn + fetched) \<times> 'w"
  ak_version :: string
  now_str :: "'w \<Rightarrow> string"
  parse_numeric :: "string \<Rightarrow> real option"
  float_of_str :: "string \<Rightarrow> real option"
  int_of_str :: "string \<Rightarrow> int option"
  int_error_text :: "pyval \<Rightarrow> string"
  str_text :: "pyval \<Rightarrow> string"
  quantile :: "real list \<Rightarrow> real \<Rightarrow> real"

text \<open>
  The state of a run: the world of the provider and the names of the provider
  functions requested through \<open>_call_if_exists\<close>, oldest first.
\<close>

type_synonym 'w st = "'w \<times> string list"

subsection \<open>Strings and builtins\<close>

definition nl :: string where
  "nl = [CHR 0x0A]"

fun join :: "string \<Rightarrow> string list \<Rightarrow> string" where
  "join sep [] = []"
| "join sep [x] = x"
| "join sep (x # y # ys) = x @ sep @ join sep (y # ys)"

text \<open>\<open>str.strip()\<close>, on the ASCII blanks of Python.\<close>

definition is_space :: "char \<Rightarrow> bool" where
  "is_space c = (c \<in> set [CHR 0x09, CHR 0x0A, CHR 0x0B, CHR 0x0C, CHR 0x0D,
                            CHR 0x1C, CHR 0x1D, CHR 0x1E, CHR 0x1F, CHR 0x20])"

definition strip :: "string \<Rightarrow> string" where
  "strip s = rev (dropWhile is_space (rev (dropWhile is_space s)))"

text \<open>\<open>d.get(k, default)\<close>.\<close>

definition dict_get :: "(string \<times> pyval) list \<Rightarrow> string \<Rightarrow> pyval \<Rightarrow> pyval" where
  "dict_get d k dflt = (case map_of d k of Some v \<Rightarrow> v | None \<Rightarrow> dflt)"

text \<open>\<open>int(v)\<close>: truncation for a float, the parser for a string, an error otherwise.\<close>

fun py_int :: "'w env \<Rightarrow> pyval \<Rightarrow> exn + int" where
  "py_int env (VInt n) = Inr n"
| "py_int env (VBool b) = Inr (if b then 1 else 0)"
| "py_int env (VFloat r) = Inr (if 0 \<le> r then \<lfloor>r\<rfloor> else \<lceil>r\<rceil>)"
| "py_int env VNaN = Inl (Exn ''ValueError'' (int_error_text env VNaN))"
| "py_int env (VStr s) =
     (case int_of_str env s of
        Some n \<Rightarrow> Inr n
      | None \<Rightarrow> Inl (Exn ''ValueError'' (int_error_text env (VStr s))))"
| "py_int env v = Inl (Exn ''TypeError'' (int_error_text env v))"

text \<open>\<open>bool(v)\<close>.\<close>

fun py_bool :: "pyval \<Rightarrow> bool" where
  "py_bool VNone = False"
| "py_bool (VBool b) = b"
| "py_bool (VInt n) = (n \<noteq> 0)"
| "py_bool (VFloat r) = (r \<noteq> 0)"
| "py_bool VNaN = True"
| "py_bool (VStr s) = (s \<noteq> [])"
| "py_bool (VList vs) = (vs \<noteq> [])"
| "py_bool (VDict d) = (d \<noteq> [])"

text \<open>\<open>str(v)\<close>.\<close>

fun py_str :: "'w env \<Rightarrow> pyval \<Rightarrow> string" where
  "py_str env (VStr s) = s"
| "py_str env v = str_text env v"

subsection \<open>utils\<close>

text \<open>
  \<open>_safe_float\<close>: None for None, NaN and whatever \<open>float\<close> rejects, the float
  otherwise.
\<close>

fun safe_float :: "'w env \<Rightarrow> pyval \<Rightarrow> pyval" where
  "safe_float env VNone = VNone"
| "safe_float env VNaN = VNone"
| "safe_float env (VFloat r) = VFloat r"
| "safe_float env (VInt n) = VFloat (of_int n)"
| "safe_float env (VBool b) = VFloat (if b then 1 else 0)"
| "safe_float env (VStr s) =
     (case float_of_str env s of Some r \<Rightarrow> VFloat r | None \<Rightarrow> VNone)"
| "safe_float env v = VNone"

text \<open>\<open>_pick_col\<close>: the loop over the candidates.\<close>

fun pick_col :: "dataframe \<Rightarrow> string list \<Rightarrow> string option" where
  "pick_col df [] = None"
| "pick_col df (c # cs) = (if c \<in> set (columns df) then Some c else pick_col df cs)"

text \<open>\<open>_call_if_exists\<close>: the request is noted, then the provider runs.\<close>

definition call_if_exists ::
  "'w env \<Rightarrow> string \<Rightarrow> (string \<times> string) list \<Rightarrow> 'w st \<Rightarrow> (exn + fetched) \<times> 'w st" where
  "call_if_exists env func_name kwargs s =
     (case ak_call env func_name kwargs (fst s) of
        (r, w') \<Rightarrow> (r, (w', snd s @ [func_name])))"

text \<open>
  \<open>_fetch_with_fallback\<close>. A fetcher is a name and a thunk; calling the thunk acts on
  the state. The loop carries \<open>errors\<close>.
\<close>

type_synonym 's fetcher = "string \<times> ('s \<Rightarrow> (exn + fetched) \<times> 's)"

definition empty_text :: "string \<Rightarrow> string" where
  "empty_text name = ''['' @ name @ ''] Empty dataframe''"

definition raised_text :: "string \<Rightarrow> exn \<Rightarrow> string" where
  "raised_text name e = (case e of Exn cls msg \<Rightarrow> ''['' @ name @ ''] '' @ cls @ '': '' @ msg)"

definition all_failed :: "string list \<Rightarrow> exn" where
  "all_failed errors = Exn ''RuntimeError'' (''All data sources failed:'' @ nl @ join nl errors)"

fun fetch_loop ::
  "'s fetcher list \<Rightarrow> string list \<Rightarrow> 's \<Rightarrow> (exn + dataframe \<times> string list) \<times> 's" where
  "fetch_loop [] errors s = (Inl (all_failed errors), s)"
| "fetch_loop ((name, f) # fs) errors s =
     (case f s of
        (Inr (Frame df), s') \<Rightarrow>
          if length (rows df) > 0 then (Inr (df, errors), s')
          else fetch_loop fs (errors @ [empty_text name]) s'
      | (Inr (Obj v), s') \<Rightarrow> fetch_loop fs (errors @ [empty_text name]) s'
      | (Inl e, s') \<Rightarrow> fetch_loop fs (errors @ [raised_text name e]) s')"

definition fetch_with_fallback ::
  "'s fetcher list \<Rightarrow> 's \<Rightarrow> (exn + dataframe \<times> string list) \<times> 's" where
  "fetch_with_fallback fetchers s = fetch_loop fetchers [] s"

subsection \<open>Column labels\<close>

text \<open>
  The labels the summaries look for. The Chinese labels are written as their UTF-8
  bytes; each definition gives the label of the source in Latin transcription.
\<close>

definition col_daima :: string where
  "col_daima = [CHR 0xE4, CHR 0xBB, CHR 0xA3, CHR 0xE7, CHR 0xA0, CHR 0x81]"

definition col_gupiao :: string where
  "col_gupiao = [CHR 0xE8, CHR 0x82, CHR 0xA1, CHR 0xE7, CHR 0xA5, CHR 0xA8]"

definition col_mingcheng :: string where
  "col_mingcheng = [CHR 0xE5, CHR 0x90, CHR 0x8D, CHR 0xE7, CHR 0xA7, CHR 0xB0]"

definition col_jiancheng :: string where
  "col_jiancheng = [CHR 0xE7, CHR 0xAE, CHR 0x80, CHR 0xE7, CHR 0xA7, CHR 0xB0]"

definition col_zhangdiefu :: string where
  "col_zhangdiefu = [CHR 0xE6, CHR 0xB6, CHR 0xA8, CHR 0xE8, CHR 0xB7, CHR 0x8C, CHR 0xE5, CHR 0xB9, CHR 0x85]"

definition col_zuixin :: string where
  "col_zuixin = [CHR 0xE6, CHR 0x9C, CHR 0x80, CHR 0xE6, CHR 0x96, CHR 0xB0]"

definition col_xianjia :: string where
  "col_xianjia = [CHR 0xE7, CHR 0x8E, CHR 0xB0, CHR 0xE4, CHR 0xBB, CHR 0xB7]"

definition ch_jia :: string where
  "ch_jia = [CHR 0xE4, CHR 0xBB, CHR 0xB7]"

definition col_chengjiaoe :: string where
  "col_chengjiaoe = [CHR 0xE6, CHR 0x88, CHR 0x90, CHR 0xE4, CHR 0xBA, CHR 0xA4, CHR 0xE9, CHR 0xA2, CHR 0x9D]"

definition ch_yuan :: string where
  "ch_yuan = [CHR 0xE5, CHR 0x85, CHR 0x83]"

definition ch_wan :: string where
  "ch_wan = [CHR 0xE4, CHR 0xB8, CHR 0x87]"

definition ch_lparen_full :: string where
  "ch_lparen_full = [CHR 0xEF, CHR 0xBC, CHR 0x88]"

definition ch_rparen_full :: string where
  "ch_rparen_full = [CHR 0xEF, CHR 0xBC, CHR 0x89]"

definition col_bankuai :: string where
  "col_bankuai = [CHR 0xE6, CHR 0x9D, CHR 0xBF, CHR 0xE5, CHR 0x9D, CHR 0x97]"

definition col_hangye :: string where
  "col_hangye = [CHR 0xE8, CHR 0xA1, CHR 0x8C, CHR 0xE4, CHR 0xB8, CHR 0x9A]"

definition col_shangzhang_jiashu :: string where
  "col_shangzhang_jiashu = [CHR 0xE4, CHR 0xB8, CHR 0x8A, CHR 0xE6, CHR 0xB6, CHR 0xA8, CHR 0xE5, CHR 0xAE, CHR 0xB6, CHR 0xE6, CHR 0x95, CHR 0xB0]"

definition col_xiadie_jiashu :: string where
  "col_xiadie_jiashu = [CHR 0xE4, CHR 0xB8, CHR 0x8B, CHR 0xE8, CHR 0xB7, CHR 0x8C, CHR 0xE5, CHR 0xAE, CHR 0xB6, CHR 0xE6, CHR 0x95, CHR 0xB0]"

definition col_lingzhang_gupiao :: string where
  "col_lingzhang_gupiao = [CHR 0xE9, CHR 0xA2, CHR 0x86, CHR 0xE6, CHR 0xB6, CHR 0xA8, CHR 0xE8, CHR 0x82, CHR 0xA1, CHR 0xE7, CHR 0xA5, CHR 0xA8]"

definition code_candidates :: "string list" where
  "code_candidates = [col_daima, col_gupiao @ col_daima, ''symbol'', ''code'']"

definition name_candidates :: "string list" where
  "name_candidates = [col_mingcheng, col_gupiao @ col_jiancheng, ''name'']"

definition pct_candidates :: "string list" where
  "pct_candidates =
     [col_zhangdiefu, col_zhangdiefu @ ''%'', col_zhangdiefu @ ''(%)'',
      ''changepercent'', ''pct_chg'', col_zhangdiefu @ ''(%)'']"

definition price_candidates :: "string list" where
  "price_candidates = [col_zuixin @ ch_jia, col_xianjia, ''price'', ''trade'', col_zuixin]"

definition amount_candidates :: "string list" where
  "amount_candidates =
     [col_chengjiaoe, ''amount'', col_chengjiaoe @ ''('' @ ch_yuan @ '')'', ''turnover'',
      col_chengjiaoe @ ch_lparen_full @ ch_yuan @ ch_rparen_full,
      col_chengjiaoe @ ''('' @ ch_wan @ '')'']"

definition board_candidates :: "string list" where
  "board_candidates = [col_bankuai @ col_mingcheng, col_hangye @ col_mingcheng, col_mingcheng, ''board'']"

definition board_pct_candidates :: "string list" where
  "board_pct_candidates =
     [col_zhangdiefu, col_zhangdiefu @ ''%'', col_zhangdiefu @ ''(%)'', ''pct_chg'']"

subsection \<open>The pandas operations the summaries use\<close>

text \<open>
  \<open>pd.to_numeric(..., errors="coerce")\<close> on one cell: a number stays, a string goes
  through the parser, anything else is NaN.
\<close>

fun to_numeric :: "'w env \<Rightarrow> pyval \<Rightarrow> pyval" where
  "to_numeric env (VFloat r) = VFloat r"
| "to_numeric env (VInt n) = VFloat (of_int n)"
| "to_numeric env (VBool b) = VFloat (if b then 1 else 0)"
| "to_numeric env (VStr s) =
     (case parse_numeric env s of Some r \<Rightarrow> VFloat r | None \<Rightarrow> VNaN)"
| "to_numeric env v = VNaN"

text \<open>\<open>x[col] = pd.to_numeric(x[col], errors="coerce")\<close>.\<close>

definition coerce_col :: "'w env \<Rightarrow> string \<Rightarrow> (string \<Rightarrow> pyval) list \<Rightarrow> (string \<Rightarrow> pyval) list" where
  "coerce_col env col rs = map (\<lambda>r. r(col := to_numeric env (r col))) rs"

text \<open>A comparison of a float cell with a constant: NaN compares false.\<close>

definition cmp_float :: "(real \<Rightarrow> bool) \<Rightarrow> pyval \<Rightarrow> bool" where
  "cmp_float P v = (case v of VFloat r \<Rightarrow> P r | _ \<Rightarrow> False)"

text \<open>\<open>int((x[col] ...).sum())\<close>: the number of rows where the comparison holds.\<close>

definition count_rows :: "(real \<Rightarrow> bool) \<Rightarrow> string \<Rightarrow> (string \<Rightarrow> pyval) list \<Rightarrow> int" where
  "count_rows P col rs = int (length (filter (\<lambda>r. cmp_float P (r col)) rs))"

text \<open>\<open>x[col].dropna()\<close> of a float column.\<close>

definition dropna :: "string \<Rightarrow> (string \<Rightarrow> pyval) list \<Rightarrow> real list" where
  "dropna col rs = List.map_filter (\<lambda>r. case r col of VFloat v \<Rightarrow> Some v | _ \<Rightarrow> None) rs"

definition is_float :: "pyval \<Rightarrow> bool" where
  "is_float v = (case v of VFloat r \<Rightarrow> True | _ \<Rightarrow> False)"

definition fkey :: "string \<Rightarrow> (string \<Rightarrow> pyval) \<Rightarrow> real" where
  "fkey col r = (case r col of VFloat v \<Rightarrow> v | _ \<Rightarrow> 0)"

text \<open>
  \<open>sort_values(col, ascending=...)\<close> on a float column, as pandas sorts one key: the
  rows without NaN are sorted (reversed before and after when descending), the rows
  with NaN follow in their old order. The order pandas gives to rows of equal key is
  left open by its default sort; here it is the stable one.
\<close>

definition sort_values :: "string \<Rightarrow> bool \<Rightarrow> (string \<Rightarrow> pyval) list \<Rightarrow> (string \<Rightarrow> pyval) list" where
  "sort_values col ascending rs =
     (let non_nans = filter (\<lambda>r. is_float (r col)) rs;
          nans = filter (\<lambda>r. \<not> is_float (r col)) rs
      in (if ascending then sort_key (fkey col) non_nans
          else rev (sort_key (fkey col) (rev non_nans))) @ nans)"

text \<open>\<open>head(n)\<close>: the first \<open>n\<close> rows, or all but the last \<open>-n\<close> when \<open>n\<close> is negative.\<close>

definition head_rows :: "int \<Rightarrow> 'a list \<Rightarrow> 'a list" where
  "head_rows n xs = (if 0 \<le> n then take (nat n) xs else take (length xs - nat (- n)) xs)"

text \<open>\<open>to_dict(orient="records")\<close> of the rows under the given labels.\<close>

definition to_records :: "string list \<Rightarrow> (string \<Rightarrow> pyval) list \<Rightarrow> pyval" where
  "to_records cols rs = VList (map (\<lambda>r. VDict (map (\<lambda>c. (c, r c)) cols)) rs)"

text \<open>The local \<open>q\<close> of \<open>_summarize_spot\<close>.\<close>

definition spot_q :: "'w env \<Rightarrow> real list \<Rightarrow> real \<Rightarrow> pyval" where
  "spot_q env v p = (if v \<noteq> [] then safe_float env (VFloat (quantile env v p)) else VNone)"

subsection \<open>summaries\<close>

text \<open>The reply of a summary that cannot find its key columns.\<close>

definition missing_columns :: "string \<Rightarrow> dataframe \<Rightarrow> pyval" where
  "missing_columns msg df =
     VDict [(''error'', VStr msg), (''available_cols'', VList (map VStr (columns df)))]"

text \<open>The \<open>breadth\<close> dict of \<open>_summarize_spot\<close>, from the coerced rows.\<close>

definition breadth_of :: "string \<Rightarrow> (string \<Rightarrow> pyval) list \<Rightarrow> pyval" where
  "breadth_of pct_col x =
     VDict [(''advance'', VInt (count_rows (\<lambda>v. 0 < v) pct_col x)),
            (''decline'', VInt (count_rows (\<lambda>v. v < 0) pct_col x)),
            (''flat'', VInt (count_rows (\<lambda>v. v = 0) pct_col x)),
            (''total'', VInt (int (length x)))]"

text \<open>
  One record of \<open>top_turnover\<close>: the chosen columns under their new names, the numeric
  ones through \<open>_safe_float\<close>.
\<close>

definition turnover_record ::
  "'w env \<Rightarrow> string \<Rightarrow> string \<Rightarrow> string option \<Rightarrow> string \<Rightarrow> string \<Rightarrow> (string \<Rightarrow> pyval) \<Rightarrow> pyval" where
  "turnover_record env code_col name_col price_col pct_col amount_col r =
     VDict ([(''code'', r code_col), (''name'', r name_col)]
            @ (case price_col of Some p \<Rightarrow> [(''last'', safe_float env (r p))] | None \<Rightarrow> [])
            @ [(''pct_chg'', safe_float env (r pct_col)),
               (''amount'', safe_float env (r amount_col))])"

text \<open>
  The block under \<open>if amount_col\<close>: the pair (\<open>turnover_quantiles\<close>, \<open>top_turnover\<close>).
\<close>

definition turnover_part ::
  "'w env \<Rightarrow> string \<Rightarrow> string \<Rightarrow> string option \<Rightarrow> string \<Rightarrow> string option \<Rightarrow> int
     \<Rightarrow> (string \<Rightarrow> pyval) list \<Rightarrow> pyval \<times> pyval" where
  "turnover_part env code_col name_col price_col pct_col amount_col top_n x =
     (case amount_col of
        None \<Rightarrow> (VNone, VNone)
      | Some a \<Rightarrow>
          (let x' = coerce_col env a x;
               amt = dropna a x'
           in if amt \<noteq> [] then
                (VDict [(''p50'', spot_q env amt (50 / 100)),
                        (''p90'', spot_q env amt (90 / 100)),
                        (''p99'', spot_q env amt (99 / 100))],
                 VList (map (turnover_record env code_col name_col price_col pct_col a)
                          (head_rows top_n (sort_values a False x'))))
              else (VNone, VNone)))"

definition summarize_spot :: "'w env \<Rightarrow> dataframe \<Rightarrow> int \<Rightarrow> pyval" where
  "summarize_spot env df top_n =
     (let code_col = pick_col df code_candidates;
          name_col = pick_col df name_candidates;
          pct_col = pick_col df pct_candidates;
          price_col = pick_col df price_candidates;
          amount_col = pick_col df amount_candidates
      in case (code_col, name_col, pct_col) of
           (Some code, Some name, Some pct) \<Rightarrow>
             (let x = coerce_col env pct (rows df);
                  breadth = breadth_of pct x;
                  pctv = dropna pct x;
                  pct_quantiles =
                    VDict [(''p10'', spot_q env pctv (10 / 100)),
                           (''p50'', spot_q env pctv (50 / 100)),
                           (''p90'', spot_q env pctv (90 / 100))];
                  limit_up_like = count_rows (\<lambda>v. 95 / 10 \<le> v) pct x;
                  limit_down_like = count_rows (\<lambda>v. v \<le> - (95 / 10)) pct x;
                  turnover = turnover_part env code name price_col pct amount_col top_n x
              in VDict [(''breadth'', breadth),
                        (''pct_chg_quantiles'', pct_quantiles),
                        (''turnover_quantiles'', fst turnover),
                        (''limit_up_like'', VInt limit_up_like),
                        (''limit_down_like'', VInt limit_down_like),
                        (''top_turnover'', snd turnover)])
         | _ \<Rightarrow> missing_columns ''spot missing key columns'' df)"

text \<open>
  \<open>_summarize_industry_board\<close>. \<open>extra_cols\<close> are the optional columns that occur;
  \<open>pack\<close> renames the chosen columns and sends the numeric ones through
  \<open>_safe_float\<close>.
\<close>

definition extra_cols :: "dataframe \<Rightarrow> string list" where
  "extra_cols df =
     filter (\<lambda>c. c \<in> set (columns df))
       [col_shangzhang_jiashu, col_xiadie_jiashu, col_lingzhang_gupiao,
        col_lingzhang_gupiao @ ''-'' @ col_zhangdiefu]"

definition pack_field :: "'w env \<Rightarrow> (string \<Rightarrow> pyval) \<Rightarrow> string \<Rightarrow> string \<times> pyval" where
  "pack_field env r c =
     (if c = col_shangzhang_jiashu then (''adv'', safe_float env (r c))
      else if c = col_xiadie_jiashu then (''dec'', safe_float env (r c))
      else if c = col_lingzhang_gupiao then (''leader'', r c)
      else (''leader_pct_chg'', safe_float env (r c)))"

definition pack :: "'w env \<Rightarrow> string \<Rightarrow> string \<Rightarrow> string list \<Rightarrow> (string \<Rightarrow> pyval) list \<Rightarrow> pyval" where
  "pack env board_col pct_col extra df_part =
     VList (map (\<lambda>r. VDict ([(''board'', r board_col), (''pct_chg'', safe_float env (r pct_col))]
                             @ map (pack_field env r) extra)) df_part)"

definition summarize_industry_board :: "'w env \<Rightarrow> dataframe \<Rightarrow> int \<Rightarrow> pyval" where
  "summarize_industry_board env df top_n =
     (let board_col = pick_col df board_candidates;
          pct_col = pick_col df board_pct_candidates
      in case (board_col, pct_col) of
           (Some board, Some pct) \<Rightarrow>
             (let x = coerce_col env pct (rows df);
                  top_up = head_rows top_n (sort_values pct False x);
                  top_dn = head_rows top_n (sort_values pct True x)
              in VDict [(''top_gainers'', pack env board pct (extra_cols df) top_up),
                        (''top_losers'', pack env board pct (extra_cols df) top_dn)])
         | _ \<Rightarrow> missing_columns ''industry board missing key columns'' df)"

subsection \<open>fetchers\<close>

definition hs_a_fetchers :: "'w env \<Rightarrow> 'w st fetcher list" where
  "hs_a_fetchers env =
     [(''eastmoney_spot_em'', call_if_exists env ''stock_zh_a_spot_em'' []),
      (''sina_spot'', call_if_exists env ''stock_zh_a_spot'' []),
      (''tencent_spot'', call_if_exists env ''stock_zh_a_spot_tx'' []),
      (''sina_spot_2'', call_if_exists env ''stock_zh_a_spot_sina'' [])]"

definition fetch_hs_a ::
  "'w env \<Rightarrow> 'w st \<Rightarrow> (exn + dataframe \<times> string \<times> string list) \<times> 'w st" where
  "fetch_hs_a env s =
     (case fetch_with_fallback (hs_a_fetchers env) s of
        (Inl e, s') \<Rightarrow> (Inl e, s')
      | (Inr (df, errors), s') \<Rightarrow> (Inr (df, ''auto_fallback'', errors), s'))"

definition industry_board_fetchers :: "'w env \<Rightarrow> 'w st fetcher list" where
  "industry_board_fetchers env =
     [(''eastmoney_industry_board'', call_if_exists env ''stock_board_industry_name_em'' [])]"

definition fetch_industry_board ::
  "'w env \<Rightarrow> 'w st \<Rightarrow> (exn + dataframe \<times> string \<times> string list) \<times> 'w st" where
  "fetch_industry_board env s =
     (case fetch_with_fallback (industry_board_fetchers env) s of
        (Inl e, s') \<Rightarrow> (Inl e, s')
      | (Inr (df, errors), s') \<Rightarrow> (Inr (df, ''eastmoney'', errors), s'))"

subsection \<open>main API\<close>

text \<open>The \<open>meta\<close> dict as it is first built.\<close>

definition meta_of :: "'w env \<Rightarrow> string \<Rightarrow> (string \<times> pyval) list \<Rightarrow> 'w st \<Rightarrow> (string \<times> pyval) list" where
  "meta_of env scope params s =
     [(''scope'', VStr scope),
      (''asof'', VStr (now_str env (fst s))),
      (''source'', VStr ''akshare''),
      (''akshare_version'', VStr (ak_version env)),
      (''params'', VDict params)]"

text \<open>
  \<open>meta["data_source"] = src\<close>, and \<open>meta["fallback_errors"] = errs\<close> when \<open>errs\<close> is
  not empty.
\<close>

definition with_source :: "(string \<times> pyval) list \<Rightarrow> string \<Rightarrow> string list \<Rightarrow> (string \<times> pyval) list" where
  "with_source meta src errs =
     meta @ [(''data_source'', VStr src)]
          @ (if errs \<noteq> [] then [(''fallback_errors'', VList (map VStr errs))] else [])"

text \<open>The \<open>shape\<close> and \<open>columns\<close> entries of a report.\<close>

definition shape_columns :: "dataframe \<Rightarrow> (string \<times> pyval) list" where
  "shape_columns df =
     [(''shape'', VDict [(''rows'', VInt (int (length (rows df)))),
                         (''cols'', VInt (int (length (columns df))))]),
      (''columns'', VList (map VStr (columns df)))]"

text \<open>\<open>out["raw_head"] = df.head(raw_rows).to_dict(orient="records")\<close> under \<open>if raw\<close>.\<close>

definition raw_head :: "bool \<Rightarrow> int \<Rightarrow> dataframe \<Rightarrow> (string \<times> pyval) list" where
  "raw_head raw raw_rows df =
     (if raw then [(''raw_head'', to_records (columns df) (head_rows raw_rows (rows df)))] else [])"

text \<open>The report of the \<open>except\<close> clause.\<close>

definition fetch_failed :: "(string \<times> pyval) list \<Rightarrow> exn \<Rightarrow> pyval" where
  "fetch_failed meta e =
     (case e of Exn cls msg \<Rightarrow>
        VDict [(''meta'', VDict meta),
               (''error'', VStr (''fetch failed: '' @ cls @ '': '' @ msg))])"

text \<open>The report of the two exchange summaries, from what the provider returned.\<close>

definition exchange_report :: "(string \<times> pyval) list \<Rightarrow> bool \<Rightarrow> int \<Rightarrow> fetched \<Rightarrow> pyval" where
  "exchange_report meta raw raw_rows res =
     (case res of
        Frame df \<Rightarrow>
          VDict ([(''meta'', VDict meta)] @ shape_columns df
                 @ [(''data'', to_records (columns df) (rows df))]
                 @ raw_head raw raw_rows df)
      | Obj v \<Rightarrow> VDict [(''meta'', VDict meta), (''data'', v)])"

definition supported_scopes :: "string list" where
  "supported_scopes = [''hs_a'', ''industry_board'', ''sse_summary'', ''szse_summary'']"

definition sq :: string where
  "sq = [CHR 0x27]"

definition date_required :: string where
  "date_required =
     ''szse_summary requires params['' @ sq @ ''date'' @ sq @ ''], e.g. '' @ sq @ ''20200619'' @ sq"

text \<open>\<open>params or {}\<close>, for \<open>params\<close> that is None or a dict.\<close>

definition params_dict :: "(string \<times> pyval) list option \<Rightarrow> (string \<times> pyval) list" where
  "params_dict params0 = (case params0 of None \<Rightarrow> [] | Some d \<Rightarrow> d)"

text \<open>
  The \<open>try\<close> statement of \<open>get_market_state\<close> with its \<open>except Exception\<close> clause:
  the branch of the scope, and the \<open>fetch failed\<close> report when the branch raises.
\<close>

definition try_scope ::
  "'w env \<Rightarrow> string \<Rightarrow> (string \<times> pyval) list \<Rightarrow> int \<Rightarrow> bool \<Rightarrow> int \<Rightarrow> (string \<times> pyval) list
     \<Rightarrow> 'w st \<Rightarrow> pyval \<times> 'w st" where
  "try_scope env scope params top_n raw raw_rows meta s =
     (if scope = ''hs_a'' then
        (case fetch_hs_a env s of
           (Inl e, s') \<Rightarrow> (fetch_failed meta e, s')
         | (Inr (df, src, errs), s') \<Rightarrow>
             (VDict ([(''meta'', VDict (with_source meta src errs))] @ shape_columns df
                     @ [(''summary'', summarize_spot env df top_n)]
                     @ raw_head raw raw_rows df), s'))
      else if scope = ''industry_board'' then
        (case fetch_industry_board env s of
           (Inl e, s') \<Rightarrow> (fetch_failed meta e, s')
         | (Inr (df, src, errs), s') \<Rightarrow>
             (VDict ([(''meta'', VDict (with_source meta src errs))] @ shape_columns df
                     @ [(''summary'', summarize_industry_board env df top_n)]
                     @ raw_head raw raw_rows df), s'))
      else if scope = ''sse_summary'' then
        (case call_if_exists env ''stock_sse_summary'' [] s of
           (Inl e, s') \<Rightarrow> (fetch_failed meta e, s')
         | (Inr res, s') \<Rightarrow> (exchange_report meta raw raw_rows res, s'))
      else if scope = ''szse_summary'' then
        (let date = strip (py_str env (dict_get params ''date'' (VStr []))) in
         if date = [] then
           (VDict [(''meta'', VDict meta), (''error'', VStr date_required)], s)
         else
           (case call_if_exists env ''stock_szse_summary'' [(''date'', date)] s of
              (Inl e, s') \<Rightarrow> (fetch_failed meta e, s')
            | (Inr res, s') \<Rightarrow> (exchange_report meta raw raw_rows res, s')))
      else
        (VDict [(''meta'', VDict meta),
                (''error'', VStr (''unknown scope: '' @ scope)),
                (''supported_scopes'', VList (map VStr supported_scopes))], s))"

text \<open>
  \<open>get_market_state\<close>. The two \<open>int(...)\<close> stand before the \<open>try\<close>: their exception
  leaves the function (\<open>Inl\<close>). What the \<open>try\<close> statement returns is the report
  (\<open>Inr\<close>).
\<close>

definition get_market_state ::
  "'w env \<Rightarrow> string \<Rightarrow> (string \<times> pyval) list option \<Rightarrow> 'w st \<Rightarrow> (exn + pyval) \<times> 'w st" where
  "get_market_state env scope params0 s =
     (case py_int env (dict_get (params_dict params0) ''top_n'' (VInt 20)) of
        Inl e \<Rightarrow> (Inl e, s)
      | Inr top_n \<Rightarrow>
          (case py_int env (dict_get (params_dict params0) ''raw_rows'' (VInt 5)) of
             Inl e \<Rightarrow> (Inl e, s)
           | Inr raw_rows \<Rightarrow>
               (case try_scope env scope (params_dict params0) top_n
                       (py_bool (dict_get (params_dict params0) ''raw'' (VBool False))) raw_rows
                       (meta_of env scope (params_dict params0) s) s of
                  (report, s') \<Rightarrow> (Inr report, s'))))"

section \<open>Notions used to state the properties\<close>

text \<open>
  An attempt of the fallback chain succeeds when it returns a DataFrame with at least
  one row. \<open>failure_text\<close> is the string that stands for a failed attempt.
\<close>

definition is_success :: "exn + fetched \<Rightarrow> bool" where
  "is_success r = (case r of Inr (Frame df) \<Rightarrow> rows df \<noteq> [] | _ \<Rightarrow> False)"

definition failure_text :: "string \<Rightarrow> exn + fetched \<Rightarrow> string" where
  "failure_text name r =
     (case r of
        Inl (Exn cls msg) \<Rightarrow> ''['' @ name @ ''] '' @ cls @ '': '' @ msg
      | Inr res \<Rightarrow> ''['' @ name @ ''] Empty dataframe'')"

text \<open>
  \<open>failures fs s\<close> calls the fetchers of \<open>fs\<close> one after the other from the state
  \<open>s\<close>. When every one of them fails it is their failure strings, in order, and the
  state they leave; when one of them succeeds it is None.
\<close>

fun failures :: "'s fetcher list \<Rightarrow> 's \<Rightarrow> (string list \<times> 's) option" where
  "failures [] s = Some ([], s)"
| "failures ((name, f) # fs) s =
     (case f s of
        (r, s') \<Rightarrow>
          if is_success r then None
          else (case failures fs s' of
                  None \<Rightarrow> None
                | Some (errs, s'') \<Rightarrow> Some (failure_text name r # errs, s'')))"

text \<open>
  The two \<open>int(...)\<close> at the head of \<open>get_market_state\<close> accept the values that
  \<open>params\<close> gives to \<open>top_n\<close> and \<open>raw_rows\<close>.
\<close>

definition params_convert :: "'w env \<Rightarrow> (string \<times> pyval) list option \<Rightarrow> bool" where
  "params_convert env params0 =
     (\<not> isl (py_int env (dict_get (params_dict params0) ''top_n'' (VInt 20))) \<and>
      \<not> isl (py_int env (dict_get (params_dict params0) ''raw_rows'' (VInt 5))))"

text \<open>The entry of a dict value under a key, None when there is none.\<close>

definition field :: "string \<Rightarrow> pyval \<Rightarrow> pyval" where
  "field k v = (case v of VDict d \<Rightarrow> dict_get d k VNone | _ \<Rightarrow> VNone)"



text \<open>The float that \<open>to_numeric\<close> makes of a cell, None when it makes NaN.\<close>

definition coerced :: "'w env \<Rightarrow> pyval \<Rightarrow> real option" where
  "coerced env v = (case to_numeric env v of VFloat r \<Rightarrow> Some r | _ \<Rightarrow> None)"

text \<open>The number of rows whose coerced cell under \<open>col\<close> satisfies \<open>P\<close>.\<close>

definition rows_where :: "'w env \<Rightarrow> (real \<Rightarrow> bool) \<Rightarrow> string \<Rightarrow> dataframe \<Rightarrow> int" where
  "rows_where env P col df =
     int (length (filter (\<lambda>r. case coerced env (r col) of Some v \<Rightarrow> P v | None \<Rightarrow> False) (rows df)))"

definition rows_missing :: "'w env \<Rightarrow> string \<Rightarrow> dataframe \<Rightarrow> int" where
  "rows_missing env col df =
     int (length (filter (\<lambda>r. coerced env (r col) = None) (rows df)))"

text \<open>
  What a report notes about its source: for \<open>hs_a\<close> and \<open>industry_board\<close> whose
  chain succeeds, the label that the fetcher returns and the failures before the
  success; nothing in every other case.
\<close>

definition source_note :: "'w env \<Rightarrow> string \<Rightarrow> 'w st \<Rightarrow> (string \<times> string list) option" where
  "source_note env scope s =
     (if scope = ''hs_a'' then
        (case fst (fetch_with_fallback (hs_a_fetchers env) s) of
           Inr (df, errs) \<Rightarrow> Some (''auto_fallback'', errs)
         | Inl e \<Rightarrow> None)
      else if scope = ''industry_board'' then
        (case fst (fetch_with_fallback (industry_board_fetchers env) s) of
           Inr (df, errs) \<Rightarrow> Some (''eastmoney'', errs)
         | Inl e \<Rightarrow> None)
      else None)"


section \<open>Sample tables and environments\<close>

text \<open>A row given by its cells; a label without a cell reads None.\<close>

definition row_of :: "(string \<times> pyval) list \<Rightarrow> string \<Rightarrow> pyval" where
  "row_of cells c = dict_get cells c VNone"

definition demo_spot :: dataframe where
  "demo_spot =
     \<lparr>columns = [''code'', ''name'', ''pct_chg'', ''amount''],
      rows = [row_of [(''code'', VStr ''600000''), (''name'', VStr ''PF''),
                      (''pct_chg'', VFloat (3 / 2)), (''amount'', VInt 500)],
              row_of [(''code'', VStr ''600004''), (''name'', VStr ''BY''),
                      (''pct_chg'', VStr ''-''), (''amount'', VFloat 900)],
              row_of [(''code'', VStr ''600006''), (''name'', VStr ''DF''),
                      (''pct_chg'', VFloat 0), (''amount'', VNaN)],
              row_of [(''code'', VStr ''600007''), (''name'', VStr ''GM''),
                      (''pct_chg'', VInt (- 2)), (''amount'', VInt 700)]]\<rparr>"

definition demo_board :: dataframe where
  "demo_board =
     \<lparr>columns = [''board'', ''pct_chg''],
      rows = [row_of [(''board'', VStr ''bank''), (''pct_chg'', VFloat (- 1))],
              row_of [(''board'', VStr ''chip''), (''pct_chg'', VFloat (5 / 2))],
              row_of [(''board'', VStr ''coal''), (''pct_chg'', VNone)]]\<rparr>"

text \<open>
  A provider whose first spot source refuses the connection, whose second spot source
  and industry source answer, and which has no other function. Its world counts the
  calls it received.
\<close>

definition demo_env :: "nat env" where
  "demo_env =
     \<lparr>ak_call = (\<lambda>name kwargs w.
         if name = ''stock_zh_a_spot_em'' then (Inl (Exn ''ConnectionError'' ''aborted''), Suc w)
         else if name = ''stock_zh_a_spot'' then (Inr (Frame demo_spot), Suc w)
         else if name = ''stock_board_industry_name_em'' then (Inr (Frame demo_board), Suc w)
         else (Inl (Exn ''AttributeError'' name), w)),
      ak_version = ''1.12'',
      now_str = (\<lambda>w. ''2024-01-02 15:00:00''),
      parse_numeric = (\<lambda>s. if s = ''1.5'' then Some (3 / 2) else None),
      float_of_str = (\<lambda>s. if s = ''1.5'' then Some (3 / 2) else None),
      int_of_str = (\<lambda>s. if s = ''30'' then Some 30 else None),
      int_error_text = (\<lambda>v. ''not an integer''),
      str_text = (\<lambda>v. ''None''),
      quantile = (\<lambda>v p. 0)\<rparr>"

text \<open>
  Fetchers on a counter of calls: one returns None, one a table without rows, one
  raises, one returns a table; and one more after it.
\<close>

definition demo_fetchers :: "nat fetcher list" where
  "demo_fetchers =
     [(''a'', \<lambda>n. (Inr (Obj VNone), Suc n)),
      (''e'', \<lambda>n. (Inr (Frame \<lparr>columns = [''code''], rows = []\<rparr>), Suc n)),
      (''b'', \<lambda>n. (Inl (Exn ''KeyError'' ''x''), Suc n)),
      (''c'', \<lambda>n. (Inr (Frame demo_board), Suc n)),
      (''d'', \<lambda>n. (Inr (Frame demo_spot), Suc n))]"

text \<open>A provider that refuses every call.\<close>

definition down_env :: "nat env" where
  "down_env = demo_env\<lparr>ak_call := (\<lambda>name kwargs w. (Inl (Exn ''ConnectionError'' ''down''), Suc w))\<rparr>"

text \<open>A provider that answers every call with the board table.\<close>

definition answer_env :: "nat env" where
  "answer_env = demo_env\<lparr>ak_call := (\<lambda>name kwargs w. (Inr (Frame demo_board), Suc w))\<rparr>"

section \<open>The fallback chain\<close>

lemma fetch_loop_failures:
  "failures pre s = Some (errs, s1) \<Longrightarrow>
   fetch_loop (pre @ rest) acc s = fetch_loop rest (acc @ errs) s1"
proof (induction pre arbitrary: s acc errs)
  case Nil
  then show ?case by simp
next
  case (Cons a pre)
  obtain name f where a: "a = (name, f)" by (cases a)
  obtain r s' where fs: "f s = (r, s')" by (cases "f s")
  from Cons.prems a fs have ns: "\<not> is_success r"
    by (auto split: if_splits)
  from Cons.prems a fs ns obtain errs' where
    t: "failures pre s' = Some (errs', s1)" and e: "errs = failure_text name r # errs'"
    by (auto split: option.splits)
  from ns fs have step:
    "fetch_loop ((name, f) # pre @ rest) acc s =
     fetch_loop (pre @ rest) (acc @ [failure_text name r]) s'"
    by (auto simp: is_success_def failure_text_def empty_text_def raised_text_def
             split: sum.splits fetched.splits exn.splits)
  from Cons.IH [OF t, of "acc @ [failure_text name r]"] step a e show ?case by simp
qed

lemma failures_length: "failures fs s = Some (errs, s1) \<Longrightarrow> length errs = length fs"
proof (induction fs arbitrary: s errs)
  case Nil
  then show ?case by simp
next
  case (Cons a fs)
  obtain name f where a: "a = (name, f)" by (cases a)
  obtain r s' where fs: "f s = (r, s')" by (cases "f s")
  from Cons.prems a fs obtain errs' where
    t: "failures fs s' = Some (errs', s1)" and e: "errs = failure_text name r # errs'"
    by (auto split: option.splits if_splits)
  from Cons.IH [OF t] e show ?case by simp
qed

lemma fetch_all_fail:
  "failures fs s = Some (errs, s1) \<Longrightarrow> fetch_with_fallback fs s = (Inl (all_failed errs), s1)"
  using fetch_loop_failures [of fs s errs s1 "[]" "[]"] by (simp add: fetch_with_fallback_def)

text \<open>
  C1. Let the chain be \<open>pre\<close>, then the fetcher \<open>(name, f)\<close>, then \<open>post\<close>. If the
  fetchers of \<open>pre\<close>, called one after the other in list order, all fail (each raises,
  or returns an empty DataFrame or something that is no DataFrame), and \<open>f\<close>, called
  next, returns a DataFrame with at least one row, then \<open>_fetch_with_fallback\<close> returns
  that DataFrame with the failure strings of \<open>pre\<close> in order, one for each of its
  fetchers: \<open>[name] Empty dataframe\<close> for an empty or non-DataFrame result,
  \<open>[name] Class: text\<close> for an exception. The state it leaves is the one \<open>f\<close> left:
  no fetcher of \<open>post\<close> is called, whatever \<open>post\<close> is.
\<close>

theorem fetch_with_fallback_first_success:
  assumes "failures pre s = Some (errs, s1)"
    and "f s1 = (Inr (Frame df), s2)"
    and "rows df \<noteq> []"
  shows "fetch_with_fallback (pre @ (name, f) # post) s = (Inr (df, errs), s2) \<and>
         length errs = length pre"
  using assms fetch_loop_failures [of pre s errs s1 "(name, f) # post" "[]"]
    failures_length [of pre s errs s1]
  by (simp add: fetch_with_fallback_def)

theorem fetch_with_fallback_first_success_witness:
  "fetch_with_fallback demo_fetchers 0 =
     (Inr (demo_board, [''[a] Empty dataframe'', ''[e] Empty dataframe'', ''[b] KeyError: x'']), 4)"
proof -
  let ?pre = "[(''a'', \<lambda>n::nat. (Inr (Obj VNone) :: exn + fetched, Suc n)),
               (''e'', \<lambda>n. (Inr (Frame \<lparr>columns = [''code''], rows = []\<rparr>), Suc n)),
               (''b'', \<lambda>n. (Inl (Exn ''KeyError'' ''x''), Suc n))]"
  let ?f = "\<lambda>n::nat. (Inr (Frame demo_board) :: exn + fetched, Suc n)"
  let ?post = "[(''d'', \<lambda>n::nat. (Inr (Frame demo_spot) :: exn + fetched, Suc n))]"
  let ?errs = "[''[a] Empty dataframe'', ''[e] Empty dataframe'', ''[b] KeyError: x'']"
  have h1: "failures ?pre 0 = Some (?errs, 3)"
    by (simp add: is_success_def failure_text_def)
  have h2: "?f 3 = (Inr (Frame demo_board), 4)"
    by simp
  have h3: "rows demo_board \<noteq> []"
    by (simp add: demo_board_def)
  have h4: "demo_fetchers = ?pre @ (''c'', ?f) # ?post"
    by (simp add: demo_fetchers_def)
  from fetch_with_fallback_first_success [of ?pre 0 ?errs 3 ?f demo_board 4 "''c''" ?post]
       h1 h2 h3
  have "fetch_with_fallback (?pre @ (''c'', ?f) # ?post) 0 = (Inr (demo_board, ?errs), 4)"
    by blast
  with h4 show ?thesis by simp
qed

section \<open>Column lookup\<close>






section \<open>Exceptions while fetching\<close>

lemma sublist_join: "e \<in> set es \<Longrightarrow> sublist e (join sep es)"
proof (induction sep es rule: join.induct)
  case (1 sep)
  then show ?case by simp
next
  case (2 sep x)
  then show ?case by simp
next
  case (3 sep x y ys)
  show ?case
  proof (cases "e = x")
    case True
    then show ?thesis by simp
  next
    case False
    with 3 have "sublist e (join sep (y # ys))" by simp
    then obtain p q where "join sep (y # ys) = p @ e @ q"
      by (auto simp: sublist_def)
    then have "join sep (x # y # ys) = (x @ sep @ p) @ e @ q" by simp
    then show ?thesis unfolding sublist_def by blast
  qed
qed

lemma sublist_in_message:
  assumes "e \<in> set es"
  shows "sublist e (h @ join sep es)"
proof -
  from assms have "sublist e (join sep es)" by (rule sublist_join)
  then obtain p q where "join sep es = p @ e @ q" by (auto simp: sublist_def)
  then have "h @ join sep es = (h @ p) @ e @ q" by simp
  then show ?thesis unfolding sublist_def by blast
qed

lemma gms_converted:
  assumes "params_convert env params0"
  shows "\<exists>top_n raw_rows.
    py_int env (dict_get (params_dict params0) ''top_n'' (VInt 20)) = Inr top_n \<and>
    py_int env (dict_get (params_dict params0) ''raw_rows'' (VInt 5)) = Inr raw_rows \<and>
    (\<forall>scope s. get_market_state env scope params0 s =
       (Inr (fst (try_scope env scope (params_dict params0) top_n
                   (py_bool (dict_get (params_dict params0) ''raw'' (VBool False))) raw_rows
                   (meta_of env scope (params_dict params0) s) s)),
        snd (try_scope env scope (params_dict params0) top_n
                   (py_bool (dict_get (params_dict params0) ''raw'' (VBool False))) raw_rows
                   (meta_of env scope (params_dict params0) s) s)))"
proof -
  from assms have a: "\<not> isl (py_int env (dict_get (params_dict params0) ''top_n'' (VInt 20)))"
    and b: "\<not> isl (py_int env (dict_get (params_dict params0) ''raw_rows'' (VInt 5)))"
    by (simp_all add: params_convert_def)
  from a obtain t where t: "py_int env (dict_get (params_dict params0) ''top_n'' (VInt 20)) = Inr t"
    by (cases "py_int env (dict_get (params_dict params0) ''top_n'' (VInt 20))") auto
  from b obtain r where r: "py_int env (dict_get (params_dict params0) ''raw_rows'' (VInt 5)) = Inr r"
    by (cases "py_int env (dict_get (params_dict params0) ''raw_rows'' (VInt 5))") auto
  have "\<forall>scope s. get_market_state env scope params0 s =
       (Inr (fst (try_scope env scope (params_dict params0) t
                   (py_bool (dict_get (params_dict params0) ''raw'' (VBool False))) r
                   (meta_of env scope (params_dict params0) s) s)),
        snd (try_scope env scope (params_dict params0) t
                   (py_bool (dict_get (params_dict params0) ''raw'' (VBool False))) r
                   (meta_of env scope (params_dict params0) s) s))"
    by (simp add: get_market_state_def t r split: prod.splits)
  with t r show ?thesis by blast
qed

lemma try_hs_a_failed:
  "failures (hs_a_fetchers env) s = Some (errs, s1) \<Longrightarrow>
   try_scope env ''hs_a'' params top_n raw raw_rows meta s = (fetch_failed meta (all_failed errs), s1)"
  by (simp add: try_scope_def fetch_hs_a_def fetch_all_fail)

lemma try_industry_failed:
  "failures (industry_board_fetchers env) s = Some (errs, s1) \<Longrightarrow>
   try_scope env ''industry_board'' params top_n raw raw_rows meta s =
     (fetch_failed meta (all_failed errs), s1)"
  by (simp add: try_scope_def fetch_industry_board_def fetch_all_fail)

lemma try_sse_raised:
  "call_if_exists env ''stock_sse_summary'' [] s = (Inl e, s1) \<Longrightarrow>
   try_scope env ''sse_summary'' params top_n raw raw_rows meta s = (fetch_failed meta e, s1)"
  by (simp add: try_scope_def)

lemma try_szse_raised:
  "strip (py_str env (dict_get params ''date'' (VStr []))) = d \<Longrightarrow> d \<noteq> [] \<Longrightarrow>
   call_if_exists env ''stock_szse_summary'' [(''date'', d)] s = (Inl e, s1) \<Longrightarrow>
   try_scope env ''szse_summary'' params top_n raw raw_rows meta s = (fetch_failed meta e, s1)"
  by (simp add: try_scope_def Let_def)

lemma fetch_failed_text:
  "fetch_failed meta (Exn cls msg) =
     VDict [(''meta'', VDict meta), (''error'', VStr (''fetch failed: '' @ cls @ '': '' @ msg))]"
  by (simp add: fetch_failed_def)

text \<open>
  C2. If every fetcher of the chain fails (raises, or returns an empty DataFrame or
  something that is no DataFrame), \<open>_fetch_with_fallback\<close> raises a RuntimeError whose
  text is \<open>All data sources failed:\<close>, a newline, and the failure strings joined by
  newlines in the order of the attempts; every failure string occurs in it. Once the
  two \<open>int(...)\<close> at its head have passed, \<open>get_market_state\<close> always returns a report
  and never an exception: when every source of \<open>hs_a\<close> or of \<open>industry_board\<close> fails, or
  when the call of an exchange summary raises, the report is the \<open>meta\<close> dict and an
  \<open>error\<close> string \<open>fetch failed: Class: text\<close>.
\<close>

theorem all_sources_failed_is_reported:
  assumes "params_convert env params0"
  shows
   "(\<forall>fs s0 errs s1. failures fs s0 = Some (errs, s1) \<longrightarrow>
        fetch_with_fallback fs s0 =
          (Inl (Exn ''RuntimeError'' (''All data sources failed:'' @ nl @ join nl errs)), s1) \<and>
        (\<forall>e\<in>set errs. sublist e (''All data sources failed:'' @ nl @ join nl errs))) \<and>
    (\<forall>errs s1. failures (hs_a_fetchers env) s = Some (errs, s1) \<longrightarrow>
        get_market_state env ''hs_a'' params0 s =
          (Inr (VDict [(''meta'', VDict (meta_of env ''hs_a'' (params_dict params0) s)),
                       (''error'', VStr (''fetch failed: RuntimeError: All data sources failed:''
                                         @ nl @ join nl errs))]), s1)) \<and>
    (\<forall>errs s1. failures (industry_board_fetchers env) s = Some (errs, s1) \<longrightarrow>
        get_market_state env ''industry_board'' params0 s =
          (Inr (VDict [(''meta'', VDict (meta_of env ''industry_board'' (params_dict params0) s)),
                       (''error'', VStr (''fetch failed: RuntimeError: All data sources failed:''
                                         @ nl @ join nl errs))]), s1)) \<and>
    (\<forall>cls msg s1. call_if_exists env ''stock_sse_summary'' [] s = (Inl (Exn cls msg), s1) \<longrightarrow>
        get_market_state env ''sse_summary'' params0 s =
          (Inr (VDict [(''meta'', VDict (meta_of env ''sse_summary'' (params_dict params0) s)),
                       (''error'', VStr (''fetch failed: '' @ cls @ '': '' @ msg))]), s1)) \<and>
    (\<forall>d cls msg s1. strip (py_str env (dict_get (params_dict params0) ''date'' (VStr []))) = d \<and>
        d \<noteq> [] \<and>
        call_if_exists env ''stock_szse_summary'' [(''date'', d)] s = (Inl (Exn cls msg), s1) \<longrightarrow>
        get_market_state env ''szse_summary'' params0 s =
          (Inr (VDict [(''meta'', VDict (meta_of env ''szse_summary'' (params_dict params0) s)),
                       (''error'', VStr (''fetch failed: '' @ cls @ '': '' @ msg))]), s1)) \<and>
    (\<exists>report s1. get_market_state env scope params0 s = (Inr report, s1))"
proof -
  from gms_converted [OF assms] obtain top_n raw_rows where
    g: "\<And>scope s. get_market_state env scope params0 s =
       (Inr (fst (try_scope env scope (params_dict params0) top_n
                   (py_bool (dict_get (params_dict params0) ''raw'' (VBool False))) raw_rows
                   (meta_of env scope (params_dict params0) s) s)),
        snd (try_scope env scope (params_dict params0) top_n
                   (py_bool (dict_get (params_dict params0) ''raw'' (VBool False))) raw_rows
                   (meta_of env scope (params_dict params0) s) s))"
    by blast
  have p1: "\<forall>fs s0 errs s1. failures fs s0 = Some (errs, s1) \<longrightarrow>
        fetch_with_fallback fs s0 =
          (Inl (Exn ''RuntimeError'' (''All data sources failed:'' @ nl @ join nl errs)), s1) \<and>
        (\<forall>e\<in>set errs. sublist e (''All data sources failed:'' @ nl @ join nl errs))"
    using fetch_all_fail sublist_in_message [where h = "''All data sources failed:'' @ nl" and sep = nl]
    by (fastforce simp: all_failed_def)
  have p2: "\<forall>errs s1. failures (hs_a_fetchers env) s = Some (errs, s1) \<longrightarrow>
        get_market_state env ''hs_a'' params0 s =
          (Inr (VDict [(''meta'', VDict (meta_of env ''hs_a'' (params_dict params0) s)),
                       (''error'', VStr (''fetch failed: RuntimeError: All data sources failed:''
                                         @ nl @ join nl errs))]), s1)"
    by (simp add: g try_hs_a_failed all_failed_def fetch_failed_text)
  have p3: "\<forall>errs s1. failures (industry_board_fetchers env) s = Some (errs, s1) \<longrightarrow>
        get_market_state env ''industry_board'' params0 s =
          (Inr (VDict [(''meta'', VDict (meta_of env ''industry_board'' (params_dict params0) s)),
                       (''error'', VStr (''fetch failed: RuntimeError: All data sources failed:''
                                         @ nl @ join nl errs))]), s1)"
    by (simp add: g try_industry_failed all_failed_def fetch_failed_text)
  have p4: "\<forall>cls msg s1. call_if_exists env ''stock_sse_summary'' [] s = (Inl (Exn cls msg), s1) \<longrightarrow>
        get_market_state env ''sse_summary'' params0 s =
          (Inr (VDict [(''meta'', VDict (meta_of env ''sse_summary'' (params_dict params0) s)),
                       (''error'', VStr (''fetch failed: '' @ cls @ '': '' @ msg))]), s1)"
    by (simp add: g try_sse_raised fetch_failed_text)
  have p5: "\<forall>d cls msg s1. strip (py_str env (dict_get (params_dict params0) ''date'' (VStr []))) = d \<and>
        d \<noteq> [] \<and>
        call_if_exists env ''stock_szse_summary'' [(''date'', d)] s = (Inl (Exn cls msg), s1) \<longrightarrow>
        get_market_state env ''szse_summary'' params0 s =
          (Inr (VDict [(''meta'', VDict (meta_of env ''szse_summary'' (params_dict params0) s)),
                       (''error'', VStr (''fetch failed: '' @ cls @ '': '' @ msg))]), s1)"
    by (auto simp: g try_szse_raised fetch_failed_text)
  have p6: "\<exists>report s1. get_market_state env scope params0 s = (Inr report, s1)"
    by (simp add: g)
  from p1 p2 p3 p4 p5 p6 show ?thesis by blast
qed

theorem all_sources_failed_is_reported_witness:
  "get_market_state down_env ''industry_board'' None (0, []) =
     (Inr (VDict [(''meta'', VDict [(''scope'', VStr ''industry_board''),
                                    (''asof'', VStr ''2024-01-02 15:00:00''),
                                    (''source'', VStr ''akshare''),
                                    (''akshare_version'', VStr ''1.12''),
                                    (''params'', VDict [])]),
                  (''error'', VStr (''fetch failed: RuntimeError: All data sources failed:'' @ nl
                       @ ''[eastmoney_industry_board] ConnectionError: down''))]),
      (1, [''stock_board_industry_name_em'']))"
proof -
  have c: "params_convert down_env None"
    by (simp add: params_convert_def params_dict_def dict_get_def)
  have f: "failures (industry_board_fetchers down_env) (0, []) =
      Some ([''[eastmoney_industry_board] ConnectionError: down''], (1, [''stock_board_industry_name_em'']))"
    by (simp add: industry_board_fetchers_def call_if_exists_def down_env_def demo_env_def
          is_success_def failure_text_def)
  from all_sources_failed_is_reported [OF c, of "(0, [])" "''industry_board''"] f
  have "get_market_state down_env ''industry_board'' None (0, []) =
          (Inr (VDict [(''meta'', VDict (meta_of down_env ''industry_board'' (params_dict None) (0, []))),
                       (''error'', VStr (''fetch failed: RuntimeError: All data sources failed:''
                                         @ nl @ join nl [''[eastmoney_industry_board] ConnectionError: down'']))]),
           (1, [''stock_board_industry_name_em'']))"
    by blast
  then show ?thesis
    by (simp add: meta_of_def params_dict_def down_env_def demo_env_def)
qed

section \<open>Scopes without a fetch\<close>

lemma try_unknown:
  "scope \<notin> set supported_scopes \<Longrightarrow>
   try_scope env scope params top_n raw raw_rows meta s =
     (VDict [(''meta'', VDict meta),
             (''error'', VStr (''unknown scope: '' @ scope)),
             (''supported_scopes'', VList (map VStr supported_scopes))], s)"
  by (simp add: try_scope_def supported_scopes_def)

lemma try_szse_no_date:
  "strip (py_str env (dict_get params ''date'' (VStr []))) = [] \<Longrightarrow>
   try_scope env ''szse_summary'' params top_n raw raw_rows meta s =
     (VDict [(''meta'', VDict meta), (''error'', VStr date_required)], s)"
  by (simp add: try_scope_def)


text \<open>
  C8, as the code has it. For every scope string other than \<open>hs_a\<close>,
  \<open>industry_board\<close>, \<open>sse_summary\<close> and \<open>szse_summary\<close>, and every \<open>params\<close> whose
  \<open>top_n\<close> and \<open>raw_rows\<close> pass \<open>int(...)\<close>, \<open>get_market_state\<close> fetches nothing (it
  leaves the state as it found it) and returns the dict of \<open>meta\<close>, the error
  \<open>unknown scope:\<close> with the scope, and the list of the four supported scopes.
\<close>

theorem unknown_scope_report:
  assumes "params_convert env params0"
    and "scope \<notin> set supported_scopes"
  shows "get_market_state env scope params0 s =
     (Inr (VDict [(''meta'', VDict (meta_of env scope (params_dict params0) s)),
                  (''error'', VStr (''unknown scope: '' @ scope)),
                  (''supported_scopes'',
                     VList [VStr ''hs_a'', VStr ''industry_board'', VStr ''sse_summary'',
                            VStr ''szse_summary''])]), s)"
proof -
  from gms_converted [OF assms(1)] obtain top_n raw_rows where
    g: "get_market_state env scope params0 s =
       (Inr (fst (try_scope env scope (params_dict params0) top_n
                   (py_bool (dict_get (params_dict params0) ''raw'' (VBool False))) raw_rows
                   (meta_of env scope (params_dict params0) s) s)),
        snd (try_scope env scope (params_dict params0) top_n
                   (py_bool (dict_get (params_dict params0) ''raw'' (VBool False))) raw_rows
                   (meta_of env scope (params_dict params0) s) s))"
    by blast
  show ?thesis
    by (simp add: g try_unknown [OF assms(2)]) (simp add: supported_scopes_def)
qed

theorem unknown_scope_report_witness:
  "get_market_state demo_env ''futures'' None (0, []) =
     (Inr (VDict [(''meta'', VDict [(''scope'', VStr ''futures''),
                                    (''asof'', VStr ''2024-01-02 15:00:00''),
                                    (''source'', VStr ''akshare''),
                                    (''akshare_version'', VStr ''1.12''),
                                    (''params'', VDict [])]),
                  (''error'', VStr ''unknown scope: futures''),
                  (''supported_scopes'',
                     VList [VStr ''hs_a'', VStr ''industry_board'', VStr ''sse_summary'',
                            VStr ''szse_summary''])]), (0, []))"
proof -
  have c: "params_convert demo_env None"
    by (simp add: params_convert_def params_dict_def dict_get_def)
  have u: "''futures'' \<notin> set supported_scopes"
    by (simp add: supported_scopes_def)
  from unknown_scope_report [OF c u, of "(0, [])"] show ?thesis
    by (simp add: meta_of_def params_dict_def demo_env_def)
qed

text \<open>
  C8 as stated fails: with an unknown scope and \<open>params = {"top_n": None}\<close> the call
  raises the TypeError of \<open>int(None)\<close>, which stands before the \<open>try\<close>, and returns
  no dict.
\<close>

theorem unknown_scope_raises:
  "get_market_state demo_env ''futures'' (Some [(''top_n'', VNone)]) (0, []) =
     (Inl (Exn ''TypeError'' ''not an integer''), (0, []))"
  by (simp add: get_market_state_def params_dict_def dict_get_def demo_env_def)




section \<open>Requests to the provider\<close>












section \<open>The summaries\<close>

lemma spot_breadth_field:
  assumes "pick_col df code_candidates = Some code"
    and "pick_col df name_candidates = Some name"
    and "pick_col df pct_candidates = Some pct"
  shows "field ''breadth'' (summarize_spot env df top_n) =
           breadth_of pct (coerce_col env pct (rows df))"
  using assms by (simp add: summarize_spot_def Let_def field_def dict_get_def)


lemma summarize_spot_missing:
  assumes "pick_col df code_candidates = None \<or> pick_col df name_candidates = None \<or>
           pick_col df pct_candidates = None"
  shows "summarize_spot env df top_n = missing_columns ''spot missing key columns'' df"
  using assms by (auto simp: summarize_spot_def Let_def split: option.splits)

lemma summarize_board_missing:
  assumes "pick_col df board_candidates = None \<or> pick_col df board_pct_candidates = None"
  shows "summarize_industry_board env df top_n =
           missing_columns ''industry board missing key columns'' df"
  using assms by (auto simp: summarize_industry_board_def Let_def split: option.splits)


text \<open>
  C9. When \<open>_summarize_spot\<close> finds no column for the code, the name or the percent
  change, and when \<open>_summarize_industry_board\<close> finds none for the board name or the
  percent change, the summary returns (it raises nothing) the dict whose \<open>error\<close>
  says that key columns are missing and whose \<open>available_cols\<close> is the list of the
  column labels of the DataFrame.
\<close>

theorem missing_key_columns_reported:
  "(pick_col df code_candidates = None \<or> pick_col df name_candidates = None \<or>
    pick_col df pct_candidates = None \<longrightarrow>
      summarize_spot env df top_n =
        VDict [(''error'', VStr ''spot missing key columns''),
               (''available_cols'', VList (map VStr (columns df)))]) \<and>
   (pick_col df board_candidates = None \<or> pick_col df board_pct_candidates = None \<longrightarrow>
      summarize_industry_board env df top_n =
        VDict [(''error'', VStr ''industry board missing key columns''),
               (''available_cols'', VList (map VStr (columns df)))])"
  using summarize_spot_missing [of df env top_n] summarize_board_missing [of df env top_n]
  by (simp add: missing_columns_def)

theorem missing_key_columns_reported_witness:
  "summarize_spot demo_env demo_board 20 =
     VDict [(''error'', VStr ''spot missing key columns''),
            (''available_cols'', VList [VStr ''board'', VStr ''pct_chg''])] \<and>
   summarize_industry_board demo_env demo_spot 20 =
     VDict [(''error'', VStr ''industry board missing key columns''),
            (''available_cols'', VList [VStr ''code'', VStr ''name'', VStr ''pct_chg'', VStr ''amount''])]"
proof -
  have a: "pick_col demo_board code_candidates = None"
    by (simp add: demo_board_def code_candidates_def col_daima_def col_gupiao_def)
  have b: "pick_col demo_spot board_candidates = None"
    by (simp add: demo_spot_def board_candidates_def col_bankuai_def col_hangye_def col_mingcheng_def)
  from a b missing_key_columns_reported [of demo_board demo_env 20]
    missing_key_columns_reported [of demo_spot demo_env 20]
  show ?thesis by (simp add: demo_board_def demo_spot_def)
qed

lemma cmp_float_to_numeric:
  "cmp_float P (to_numeric env v) = (case coerced env v of Some x \<Rightarrow> P x | None \<Rightarrow> False)"
  by (cases "to_numeric env v") (simp_all add: cmp_float_def coerced_def)

lemma count_rows_coerced:
  "count_rows P col (coerce_col env col (rows df)) = rows_where env P col df"
  by (simp add: count_rows_def coerce_col_def rows_where_def filter_map o_def cmp_float_to_numeric)

lemma sign_classes:
  "int (length (filter (\<lambda>r. case coerced env (r col) of Some v \<Rightarrow> 0 < v | None \<Rightarrow> False) rs)) +
   int (length (filter (\<lambda>r. case coerced env (r col) of Some v \<Rightarrow> v < 0 | None \<Rightarrow> False) rs)) +
   int (length (filter (\<lambda>r. case coerced env (r col) of Some v \<Rightarrow> v = 0 | None \<Rightarrow> False) rs)) +
   int (length (filter (\<lambda>r. coerced env (r col) = None) rs)) = int (length rs)"
proof (induction rs)
  case Nil
  then show ?case by simp
next
  case (Cons r rs)
  show ?case
  proof (cases "coerced env (r col)")
    case None
    with Cons show ?thesis by simp
  next
    case (Some v)
    consider "0 < v" | "v < 0" | "v = 0" by linarith
    then show ?thesis using Cons Some by cases simp_all
  qed
qed

text \<open>
  C5. In a DataFrame where \<open>_summarize_spot\<close> finds the code, name and percent-change
  columns, \<open>breadth\<close> holds: \<open>advance\<close>, the number of rows whose coerced percent
  change is greater than 0; \<open>decline\<close>, the number of those less than 0; \<open>flat\<close>, the
  number of those equal to 0; \<open>total\<close>, the number of rows. A row whose percent change
  is missing or cannot be coerced counts in \<open>total\<close> and in none of the three, so
  the three and the number of such rows add up to \<open>total\<close>, and the three alone are at
  most \<open>total\<close>.
\<close>

theorem breadth_counts:
  assumes "pick_col df code_candidates = Some code"
    and "pick_col df name_candidates = Some name"
    and "pick_col df pct_candidates = Some pct"
  shows "field ''breadth'' (summarize_spot env df top_n) =
           VDict [(''advance'', VInt (rows_where env (\<lambda>v. 0 < v) pct df)),
                  (''decline'', VInt (rows_where env (\<lambda>v. v < 0) pct df)),
                  (''flat'', VInt (rows_where env (\<lambda>v. v = 0) pct df)),
                  (''total'', VInt (int (length (rows df))))] \<and>
         rows_where env (\<lambda>v. 0 < v) pct df + rows_where env (\<lambda>v. v < 0) pct df
           + rows_where env (\<lambda>v. v = 0) pct df + rows_missing env pct df = int (length (rows df)) \<and>
         rows_where env (\<lambda>v. 0 < v) pct df + rows_where env (\<lambda>v. v < 0) pct df
           + rows_where env (\<lambda>v. v = 0) pct df \<le> int (length (rows df))"
proof -
  have b: "field ''breadth'' (summarize_spot env df top_n) =
             breadth_of pct (coerce_col env pct (rows df))"
    using assms by (rule spot_breadth_field)
  have l: "length (coerce_col env pct (rows df)) = length (rows df)"
    by (simp add: coerce_col_def)
  have s: "rows_where env (\<lambda>v. 0 < v) pct df + rows_where env (\<lambda>v. v < 0) pct df
           + rows_where env (\<lambda>v. v = 0) pct df + rows_missing env pct df = int (length (rows df))"
    unfolding rows_where_def rows_missing_def by (rule sign_classes)
  have "0 \<le> rows_missing env pct df" by (simp add: rows_missing_def)
  with s have le: "rows_where env (\<lambda>v. 0 < v) pct df + rows_where env (\<lambda>v. v < 0) pct df
           + rows_where env (\<lambda>v. v = 0) pct df \<le> int (length (rows df))"
    by linarith
  from b l s le show ?thesis
    by (simp add: breadth_of_def count_rows_coerced)
qed

theorem breadth_counts_witness:
  "field ''breadth'' (summarize_spot demo_env demo_spot 20) =
     VDict [(''advance'', VInt 1), (''decline'', VInt 1), (''flat'', VInt 1), (''total'', VInt 4)]"
proof -
  have a: "pick_col demo_spot code_candidates = Some ''code''"
    by (simp add: demo_spot_def code_candidates_def col_daima_def col_gupiao_def)
  have b: "pick_col demo_spot name_candidates = Some ''name''"
    by (simp add: demo_spot_def name_candidates_def col_mingcheng_def col_gupiao_def col_jiancheng_def)
  have c: "pick_col demo_spot pct_candidates = Some ''pct_chg''"
    by (simp add: demo_spot_def pct_candidates_def col_zhangdiefu_def)
  have r: "rows_where demo_env (\<lambda>v. 0 < v) ''pct_chg'' demo_spot = 1"
     "rows_where demo_env (\<lambda>v. v < 0) ''pct_chg'' demo_spot = 1"
     "rows_where demo_env (\<lambda>v. v = 0) ''pct_chg'' demo_spot = 1"
     "int (length (rows demo_spot)) = 4"
    by (simp_all add: rows_where_def coerced_def demo_spot_def row_of_def dict_get_def demo_env_def)
  from breadth_counts [OF a b c, of demo_env 20] r show ?thesis by simp
qed

section \<open>The top lists\<close>































section \<open>The metadata envelope\<close>

lemma fetch_failed_meta:
  "\<exists>d. fetch_failed meta e = VDict d \<and> map_of d ''meta'' = Some (VDict meta)"
  by (cases e) (simp add: fetch_failed_def)

lemma exchange_report_meta:
  "\<exists>d. exchange_report meta raw raw_rows res = VDict d \<and> map_of d ''meta'' = Some (VDict meta)"
  by (cases res) (simp_all add: exchange_report_def)

lemma try_scope_meta:
  "\<exists>d. fst (try_scope env scope params top_n raw raw_rows meta s) = VDict d \<and>
        map_of d ''meta'' =
          Some (VDict (case source_note env scope s of
                         Some (src, errs) \<Rightarrow> with_source meta src errs
                       | None \<Rightarrow> meta))"
proof -
  consider (hs) "scope = ''hs_a''" | (ib) "scope = ''industry_board''" | (sse) "scope = ''sse_summary''"
    | (szse) "scope = ''szse_summary''" | (other) "scope \<notin> set supported_scopes"
    by (auto simp: supported_scopes_def)
  then show ?thesis
  proof cases
    case hs
    obtain r s1 where f: "fetch_with_fallback (hs_a_fetchers env) s = (r, s1)"
      by (cases "fetch_with_fallback (hs_a_fetchers env) s")
    show ?thesis
    proof (cases r)
      case (Inl e)
      with f hs have "try_scope env scope params top_n raw raw_rows meta s = (fetch_failed meta e, s1)"
        and "source_note env scope s = None"
        by (simp_all add: try_scope_def fetch_hs_a_def source_note_def)
      with fetch_failed_meta [of meta e] show ?thesis by simp
    next
      case (Inr p)
      obtain df errs where p: "p = (df, errs)" by (cases p)
      with Inr f hs have "try_scope env scope params top_n raw raw_rows meta s =
          (VDict ([(''meta'', VDict (with_source meta ''auto_fallback'' errs))] @ shape_columns df
                     @ [(''summary'', summarize_spot env df top_n)]
                     @ raw_head raw raw_rows df), s1)"
        and "source_note env scope s = Some (''auto_fallback'', errs)"
        by (simp_all add: try_scope_def fetch_hs_a_def source_note_def)
      then show ?thesis by simp
    qed
  next
    case ib
    obtain r s1 where f: "fetch_with_fallback (industry_board_fetchers env) s = (r, s1)"
      by (cases "fetch_with_fallback (industry_board_fetchers env) s")
    show ?thesis
    proof (cases r)
      case (Inl e)
      with f ib have "try_scope env scope params top_n raw raw_rows meta s = (fetch_failed meta e, s1)"
        and "source_note env scope s = None"
        by (simp_all add: try_scope_def fetch_industry_board_def source_note_def)
      with fetch_failed_meta [of meta e] show ?thesis by simp
    next
      case (Inr p)
      obtain df errs where p: "p = (df, errs)" by (cases p)
      with Inr f ib have "try_scope env scope params top_n raw raw_rows meta s =
          (VDict ([(''meta'', VDict (with_source meta ''eastmoney'' errs))] @ shape_columns df
                     @ [(''summary'', summarize_industry_board env df top_n)]
                     @ raw_head raw raw_rows df), s1)"
        and "source_note env scope s = Some (''eastmoney'', errs)"
        by (simp_all add: try_scope_def fetch_industry_board_def source_note_def)
      then show ?thesis by simp
    qed
  next
    case sse
    then have n: "source_note env scope s = None" by (simp add: source_note_def)
    obtain r s1 where c: "call_if_exists env ''stock_sse_summary'' [] s = (r, s1)"
      by (cases "call_if_exists env ''stock_sse_summary'' [] s")
    show ?thesis
    proof (cases r)
      case (Inl e)
      with c sse have "try_scope env scope params top_n raw raw_rows meta s = (fetch_failed meta e, s1)"
        by (simp add: try_scope_def)
      with n fetch_failed_meta [of meta e] show ?thesis by simp
    next
      case (Inr res)
      with c sse have "try_scope env scope params top_n raw raw_rows meta s =
          (exchange_report meta raw raw_rows res, s1)"
        by (simp add: try_scope_def)
      with n exchange_report_meta [of meta raw raw_rows res] show ?thesis by simp
    qed
  next
    case szse
    then have n: "source_note env scope s = None" by (simp add: source_note_def)
    let ?d = "strip (py_str env (dict_get params ''date'' (VStr [])))"
    show ?thesis
    proof (cases "?d = []")
      case True
      with szse have "try_scope env scope params top_n raw raw_rows meta s =
          (VDict [(''meta'', VDict meta), (''error'', VStr date_required)], s)"
        by (simp add: try_szse_no_date)
      with n show ?thesis by simp
    next
      case False
      obtain r s1 where c: "call_if_exists env ''stock_szse_summary'' [(''date'', ?d)] s = (r, s1)"
        by (cases "call_if_exists env ''stock_szse_summary'' [(''date'', ?d)] s")
      show ?thesis
      proof (cases r)
        case (Inl e)
        with c szse False have "try_scope env scope params top_n raw raw_rows meta s =
            (fetch_failed meta e, s1)"
          by (simp add: try_scope_def Let_def)
        with n fetch_failed_meta [of meta e] show ?thesis by simp
      next
        case (Inr res)
        with c szse False have "try_scope env scope params top_n raw raw_rows meta s =
            (exchange_report meta raw raw_rows res, s1)"
          by (simp add: try_scope_def Let_def)
        with n exchange_report_meta [of meta raw raw_rows res] show ?thesis by simp
      qed
    qed
  next
    case other
    then have n: "source_note env scope s = None"
      by (auto simp: source_note_def supported_scopes_def)
    from other n show ?thesis by (simp add: try_unknown)
  qed
qed

lemma meta_of_keys:
  "map_of (meta_of env scope params s) ''scope'' = Some (VStr scope)"
  "map_of (meta_of env scope params s) ''asof'' = Some (VStr (now_str env (fst s)))"
  "map_of (meta_of env scope params s) ''source'' = Some (VStr ''akshare'')"
  "map_of (meta_of env scope params s) ''akshare_version'' = Some (VStr (ak_version env))"
  "map_of (meta_of env scope params s) ''params'' = Some (VDict params)"
  "map_of (meta_of env scope params s) ''data_source'' = None"
  "map_of (meta_of env scope params s) ''fallback_errors'' = None"
  by (simp_all add: meta_of_def)

lemma with_source_keys:
  "map_of (with_source (meta_of env scope params s) src errs) ''scope'' = Some (VStr scope)"
  "map_of (with_source (meta_of env scope params s) src errs) ''asof'' = Some (VStr (now_str env (fst s)))"
  "map_of (with_source (meta_of env scope params s) src errs) ''source'' = Some (VStr ''akshare'')"
  "map_of (with_source (meta_of env scope params s) src errs) ''akshare_version'' = Some (VStr (ak_version env))"
  "map_of (with_source (meta_of env scope params s) src errs) ''params'' = Some (VDict params)"
  "map_of (with_source (meta_of env scope params s) src errs) ''data_source'' = Some (VStr src)"
  "map_of (with_source (meta_of env scope params s) src errs) ''fallback_errors'' =
     (if errs \<noteq> [] then Some (VList (map VStr errs)) else None)"
  by (simp_all add: with_source_def meta_of_def)

text \<open>
  C4, as the code has it. For every scope and every \<open>params\<close> whose \<open>top_n\<close> and
  \<open>raw_rows\<close> pass \<open>int(...)\<close>, the report is a dict whose \<open>meta\<close> records the
  requested scope, the time read when \<open>meta\<close> was built (before any fetch), the
  labels \<open>source\<close> and \<open>akshare_version\<close>, and the request parameters. A report of
  \<open>hs_a\<close> or \<open>industry_board\<close> built from a successful fetch also records in
  \<open>data_source\<close> the fixed label of its fetcher (\<open>auto_fallback\<close>, \<open>eastmoney\<close>) and,
  when some source failed before the one that answered, the failure strings in
  \<open>fallback_errors\<close>. Every other report (the exchange summaries, an unknown scope, a
  failed fetch) has neither \<open>data_source\<close> nor \<open>fallback_errors\<close> in its \<open>meta\<close>.
\<close>

theorem meta_envelope:
  assumes "params_convert env params0"
    and "get_market_state env scope params0 s = (res, s')"
  shows "\<exists>d m. res = Inr (VDict d) \<and> map_of d ''meta'' = Some (VDict m) \<and>
     map_of m ''scope'' = Some (VStr scope) \<and>
     map_of m ''asof'' = Some (VStr (now_str env (fst s))) \<and>
     map_of m ''source'' = Some (VStr ''akshare'') \<and>
     map_of m ''akshare_version'' = Some (VStr (ak_version env)) \<and>
     map_of m ''params'' = Some (VDict (params_dict params0)) \<and>
     map_of m ''data_source'' =
       (case source_note env scope s of Some (src, errs) \<Rightarrow> Some (VStr src) | None \<Rightarrow> None) \<and>
     map_of m ''fallback_errors'' =
       (case source_note env scope s of
          Some (src, errs) \<Rightarrow> if errs \<noteq> [] then Some (VList (map VStr errs)) else None
        | None \<Rightarrow> None)"
proof -
  from gms_converted [OF assms(1)] obtain top_n raw_rows where
    g: "get_market_state env scope params0 s =
       (Inr (fst (try_scope env scope (params_dict params0) top_n
                   (py_bool (dict_get (params_dict params0) ''raw'' (VBool False))) raw_rows
                   (meta_of env scope (params_dict params0) s) s)),
        snd (try_scope env scope (params_dict params0) top_n
                   (py_bool (dict_get (params_dict params0) ''raw'' (VBool False))) raw_rows
                   (meta_of env scope (params_dict params0) s) s))"
    by blast
  let ?meta = "meta_of env scope (params_dict params0) s"
  from try_scope_meta [of env scope "params_dict params0" top_n
         "py_bool (dict_get (params_dict params0) ''raw'' (VBool False))" raw_rows ?meta s]
  obtain d where
    d: "fst (try_scope env scope (params_dict params0) top_n
                   (py_bool (dict_get (params_dict params0) ''raw'' (VBool False))) raw_rows
                   ?meta s) = VDict d"
    and m: "map_of d ''meta'' =
          Some (VDict (case source_note env scope s of
                         Some (src, errs) \<Rightarrow> with_source ?meta src errs
                       | None \<Rightarrow> ?meta))"
    by blast
  from g d assms(2) have r: "res = Inr (VDict d)" by simp
  show ?thesis
  proof (cases "source_note env scope s")
    case None
    with m have "map_of d ''meta'' = Some (VDict ?meta)" by simp
    with r None meta_of_keys [of env scope "params_dict params0" s] show ?thesis by simp
  next
    case (Some p)
    obtain src errs where p: "p = (src, errs)" by (cases p)
    with Some m have "map_of d ''meta'' = Some (VDict (with_source ?meta src errs))" by simp
    with r Some p with_source_keys [of env scope "params_dict params0" s src errs]
    show ?thesis by simp
  qed
qed

theorem meta_envelope_witness:
  "\<exists>d m. fst (get_market_state demo_env ''hs_a'' None (0, [])) = Inr (VDict d) \<and>
     map_of d ''meta'' = Some (VDict m) \<and>
     map_of m ''scope'' = Some (VStr ''hs_a'') \<and>
     map_of m ''asof'' = Some (VStr ''2024-01-02 15:00:00'') \<and>
     map_of m ''params'' = Some (VDict []) \<and>
     map_of m ''data_source'' = Some (VStr ''auto_fallback'') \<and>
     map_of m ''fallback_errors'' =
       Some (VList [VStr ''[eastmoney_spot_em] ConnectionError: aborted''])"
proof -
  have c: "params_convert demo_env None"
    by (simp add: params_convert_def params_dict_def dict_get_def)
  obtain res s' where g: "get_market_state demo_env ''hs_a'' None (0, []) = (res, s')"
    by (cases "get_market_state demo_env ''hs_a'' None (0, [])")
  have n: "source_note demo_env ''hs_a'' (0, []) =
      Some (''auto_fallback'', [''[eastmoney_spot_em] ConnectionError: aborted''])"
    by (simp add: source_note_def fetch_with_fallback_def hs_a_fetchers_def call_if_exists_def
          demo_env_def demo_spot_def empty_text_def raised_text_def)
  have v: "now_str demo_env (fst (0::nat, [] :: string list)) = ''2024-01-02 15:00:00''"
      "params_dict None = []"
    by (simp_all add: demo_env_def params_dict_def)
  from meta_envelope [OF c g] obtain d m where
    "res = Inr (VDict d)" "map_of d ''meta'' = Some (VDict m)"
    "map_of m ''scope'' = Some (VStr ''hs_a'')"
    "map_of m ''asof'' = Some (VStr (now_str demo_env (fst (0::nat, [] :: string list))))"
    "map_of m ''params'' = Some (VDict (params_dict None))"
    "map_of m ''data_source'' =
       (case source_note demo_env ''hs_a'' (0, []) of
          Some (src, errs) \<Rightarrow> Some (VStr src) | None \<Rightarrow> None)"
    "map_of m ''fallback_errors'' =
       (case source_note demo_env ''hs_a'' (0, []) of
          Some (src, errs) \<Rightarrow> if errs \<noteq> [] then Some (VList (map VStr errs)) else None
        | None \<Rightarrow> None)"
    by blast
  with g n v have "fst (get_market_state demo_env ''hs_a'' None (0, [])) = Inr (VDict d) \<and>
     map_of d ''meta'' = Some (VDict m) \<and>
     map_of m ''scope'' = Some (VStr ''hs_a'') \<and>
     map_of m ''asof'' = Some (VStr ''2024-01-02 15:00:00'') \<and>
     map_of m ''params'' = Some (VDict []) \<and>
     map_of m ''data_source'' = Some (VStr ''auto_fallback'') \<and>
     map_of m ''fallback_errors'' =
       Some (VList [VStr ''[eastmoney_spot_em] ConnectionError: aborted''])"
    by simp
  then show ?thesis by blast
qed

text \<open>
  C4 as stated fails: the report of \<open>sse_summary\<close>, built from what the provider
  returned, has a \<open>meta\<close> of five entries, none of them the data source.
\<close>

theorem sse_report_without_source:
  "get_market_state answer_env ''sse_summary'' None (0, []) =
     (Inr (VDict [(''meta'', VDict [(''scope'', VStr ''sse_summary''),
                                    (''asof'', VStr ''2024-01-02 15:00:00''),
                                    (''source'', VStr ''akshare''),
                                    (''akshare_version'', VStr ''1.12''),
                                    (''params'', VDict [])]),
                  (''shape'', VDict [(''rows'', VInt 3), (''cols'', VInt 2)]),
                  (''columns'', VList [VStr ''board'', VStr ''pct_chg'']),
                  (''data'',
                     VList [VDict [(''board'', VStr ''bank''), (''pct_chg'', VFloat (- 1))],
                            VDict [(''board'', VStr ''chip''), (''pct_chg'', VFloat (5 / 2))],
                            VDict [(''board'', VStr ''coal''), (''pct_chg'', VNone)]])]),
      (1, [''stock_sse_summary'']))"
  by (simp add: get_market_state_def params_dict_def dict_get_def try_scope_def call_if_exists_def
        answer_env_def demo_env_def meta_of_def exchange_report_def shape_columns_def raw_head_def
        to_records_def demo_board_def row_of_def)

end
